theory Spec2Isabelle
  imports Main "HOL-Library.Multiset"
begin

section \<open>JavaScript values and strings\<close>

text \<open>
  The handlers of \<^verbatim>\<open>apps/api/src/routes\<close> receive values of any JavaScript type in a
  request body and test them with \<^verbatim>\<open>!v\<close>, \<^verbatim>\<open>v || d\<close> and \<^verbatim>\<open>typeof v\<close>.
  A field the body lacks is \<open>Undefined\<close>. Numbers are integers here, and an object or an
  array is the single value \<open>Obj\<close>: the handlers only test them for truthiness.
  A \<open>string\<close> holds the UTF-8 bytes of a well-formed text.
\<close>

datatype jsval = Undefined | Null | Bool bool | Num int | Str string | Obj

fun truthy :: "jsval \<Rightarrow> bool" where
  "truthy Undefined = False"
| "truthy Null = False"
| "truthy (Bool b) = b"
| "truthy (Num n) = (n \<noteq> 0)"
| "truthy (Str s) = (s \<noteq> [])"
| "truthy Obj = True"

fun typeof_string :: "jsval \<Rightarrow> bool" where
  "typeof_string (Str s) = True"
| "typeof_string v = False"

text \<open>\<^verbatim>\<open>s || d\<close> on a value that is a string or undefined.\<close>

definition or_else :: "string option \<Rightarrow> string \<Rightarrow> string" where
  "or_else v d = (case v of None \<Rightarrow> d | Some s \<Rightarrow> if s = [] then d else s)"

abbreviation nl :: char where "nl \<equiv> CHR 0x0A"
abbreviation dquote :: char where "dquote \<equiv> CHR 0x22"
abbreviation bslash :: char where "bslash \<equiv> CHR 0x5C"

subsection \<open>\<^verbatim>\<open>JSON.stringify\<close> of a string\<close>

text \<open>
  ECMAScript's QuoteJSONString: the quote and the backslash are escaped, the five
  control characters with a short form use it, every other character below 0x20 is
  written \<^verbatim>\<open>\u00XX\<close> in lowercase hexadecimal, and every other byte stands for itself.
\<close>

definition hex_digit :: "nat \<Rightarrow> char" where
  "hex_digit n = (if n < 10 then char_of (48 + n) else char_of (87 + n))"

definition json_escape_char :: "char \<Rightarrow> string" where
  "json_escape_char c =
     (if c = CHR 0x08 then [bslash, CHR ''b'']
      else if c = CHR 0x09 then [bslash, CHR ''t'']
      else if c = CHR 0x0A then [bslash, CHR ''n'']
      else if c = CHR 0x0C then [bslash, CHR ''f'']
      else if c = CHR 0x0D then [bslash, CHR ''r'']
      else if c = dquote then [bslash, dquote]
      else if c = bslash then [bslash, bslash]
      else if (of_char c :: nat) < 32 then
        [bslash, CHR ''u'', CHR ''0'', CHR ''0'',
         hex_digit (of_char c div 16), hex_digit (of_char c mod 16)]
      else [c])"

definition JSON_stringify :: "string \<Rightarrow> string" where
  "JSON_stringify s = dquote # concat (map json_escape_char s) @ [dquote]"

subsection \<open>Reading a JSON string literal back\<close>

definition hex_val :: "char \<Rightarrow> nat option" where
  "hex_val c =
     (let n = (of_char c :: nat) in
      if 48 \<le> n \<and> n \<le> 57 then Some (n - 48)
      else if 97 \<le> n \<and> n \<le> 102 then Some (n - 87)
      else if 65 \<le> n \<and> n \<le> 70 then Some (n - 55)
      else None)"

definition hex4 :: "char \<Rightarrow> char \<Rightarrow> char \<Rightarrow> char \<Rightarrow> nat option" where
  "hex4 a b c d =
     (case (hex_val a, hex_val b, hex_val c, hex_val d) of
        (Some w, Some x, Some y, Some z) \<Rightarrow> Some (((w * 16 + x) * 16 + y) * 16 + z)
      | _ \<Rightarrow> None)"

definition unescape_short :: "char \<Rightarrow> char option" where
  "unescape_short e =
     (if e = CHR ''b'' then Some (CHR 0x08)
      else if e = CHR ''t'' then Some (CHR 0x09)
      else if e = CHR ''n'' then Some (CHR 0x0A)
      else if e = CHR ''f'' then Some (CHR 0x0C)
      else if e = CHR ''r'' then Some (CHR 0x0D)
      else if e = dquote then Some dquote
      else if e = bslash then Some bslash
      else if e = CHR ''/'' then Some (CHR ''/'')
      else None)"

fun json_unescape :: "string \<Rightarrow> string option" where
  "json_unescape [] = Some []"
| "json_unescape [c] =
     (if c = bslash \<or> c = dquote \<or> (of_char c :: nat) < 32 then None else Some [c])"
| "json_unescape (c # e # r) =
     (if c = bslash then
        (if e = CHR ''u'' then
           (case r of
              h1 # h2 # h3 # h4 # r' \<Rightarrow>
                (case hex4 h1 h2 h3 h4 of
                   Some n \<Rightarrow>
                     if n < 256 then map_option ((#) (char_of n)) (json_unescape r')
                     else None
                 | None \<Rightarrow> None)
            | _ \<Rightarrow> None)
         else
           (case unescape_short e of
              Some x \<Rightarrow> map_option ((#) x) (json_unescape r)
            | None \<Rightarrow> None))
      else if c = dquote \<or> (of_char c :: nat) < 32 then None
      else map_option ((#) c) (json_unescape (e # r)))"

definition JSON_parse_string :: "string \<Rightarrow> string option" where
  "JSON_parse_string s =
     (case s of
        [] \<Rightarrow> None
      | q # r \<Rightarrow>
          if q = dquote \<and> r \<noteq> [] \<and> last r = dquote then json_unescape (butlast r)
          else None)"

subsection \<open>Printing a number, as \<^verbatim>\<open>String(n)\<close> and a template literal do\<close>

fun string_of_nat :: "nat \<Rightarrow> string" where
  "string_of_nat n =
     (if n < 10 then [char_of (48 + n)]
      else string_of_nat (n div 10) @ [char_of (48 + n mod 10)])"

declare string_of_nat.simps [simp del]

section \<open>Sessions and replies (\<^verbatim>\<open>middleware/auth.ts\<close>)\<close>

record auth_session =
  user_id :: string
  user_name :: string
  user_email :: string
  session_id :: string

text \<open>
  The rows of the \<^verbatim>\<open>account\<close> table that \<^verbatim>\<open>getGoogleAccount\<close> reads; the access
  token column is nullable.
\<close>

record account =
  account_userId :: string
  providerId :: string
  accessToken :: "string option"

definition getGoogleAccount :: "account list \<Rightarrow> string \<Rightarrow> account option" where
  "getGoogleAccount accounts userId =
     (case filter (\<lambda>a. account_userId a = userId \<and> providerId a = ''google'') accounts of
        [] \<Rightarrow> None
      | a # _ \<Rightarrow> Some a)"

text \<open>
  What the text stream of one agent run yields: its chunks in order, and whether the
  iteration ends normally or throws. The trace id is absent when tracing gave none.
\<close>

datatype stream_end = Completes | Throws

record model_stream =
  stream_traceId :: "string option"
  textStream :: "string list"
  stream_end :: stream_end

datatype controller_state = Closed | Errored

record sse_body =
  frames :: "string list"
  controller :: controller_state

text \<open>
  A reply of a route: \<^verbatim>\<open>c.json(payload, status)\<close>, \<^verbatim>\<open>c.json({error: msg}, status)\<close>,
  the hand-written \<^verbatim>\<open>new Response(readable, {headers})\<close>, whose status is 200, and
  \<^verbatim>\<open>stream.toUIMessageStreamResponse()\<close>, which the AI SDK builds from the stream.
  \<open>Unhandled\<close> is a handler that throws where it has no \<^verbatim>\<open>catch\<close>: the framework
  answers 500.
\<close>

datatype 'a reply =
    Json nat 'a
  | ErrorJson nat string
  | EventStream "(string \<times> string) list" sse_body
  | UIMessageStream model_stream
  | Unhandled

fun status_of :: "'a reply \<Rightarrow> nat" where
  "status_of (Json st _) = st"
| "status_of (ErrorJson st _) = st"
| "status_of (EventStream _ _) = 200"
| "status_of (UIMessageStream _) = 200"
| "status_of Unhandled = 500"

text \<open>
  \<^verbatim>\<open>requireAuth\<close>: without a session the reply is 401 and the handler does not run;
  \<open>e\<close> is what the handler would have changed, handed back untouched.
\<close>

definition requireAuth ::
  "auth_session option \<Rightarrow> 'e \<Rightarrow> (auth_session \<Rightarrow> 'a reply \<times> 'e) \<Rightarrow> 'a reply \<times> 'e" where
  "requireAuth session e next =
     (case session of
        None \<Rightarrow> (ErrorJson 401 ''Unauthorized'', e)
      | Some s \<Rightarrow> next s)"

section \<open>The memory of the agent\<close>

text \<open>
  The memory of the agent is a collaborator of the routes. It is the state below, and
  its operations do what their names say: \<^verbatim>\<open>getThreadById\<close> finds the thread with
  that id, \<^verbatim>\<open>query\<close> returns the stored messages of a thread (of one resource, when
  a resource id is given) in storage order, \<^verbatim>\<open>deleteMessages\<close> removes the messages
  with the given ids. Times are milliseconds since the epoch; a message without a
  creation time has \<open>None\<close>.
\<close>

record thread =
  thread_id :: string
  thread_resourceId :: string
  thread_title :: "string option"
  thread_createdAt :: int
  thread_updatedAt :: int

record message =
  message_id :: string
  message_threadId :: string
  message_resourceId :: string
  role :: string
  content :: string
  createdAt :: "int option"

record memory =
  threads :: "thread list"
  messages :: "message list"

definition getThreadById :: "memory \<Rightarrow> string \<Rightarrow> thread option" where
  "getThreadById mem threadId = find (\<lambda>t. thread_id t = threadId) (threads mem)"

definition memory_query :: "memory \<Rightarrow> string \<Rightarrow> string option \<Rightarrow> message list" where
  "memory_query mem threadId resourceId =
     filter (\<lambda>m. message_threadId m = threadId \<and>
                 (case resourceId of None \<Rightarrow> True | Some r \<Rightarrow> message_resourceId m = r))
       (messages mem)"

definition deleteMessages :: "string list \<Rightarrow> memory \<Rightarrow> memory" where
  "deleteMessages ids mem =
     mem\<lparr>messages := filter (\<lambda>m. message_id m \<notin> set ids) (messages mem)\<rparr>"

section \<open>\<^verbatim>\<open>POST /chat/stream\<close>\<close>

text \<open>
  The body of the request. \<^verbatim>\<open>await c.req.json()\<close> throws on a body that is empty or not
  JSON, and \<^verbatim>\<open>const { message, threadId } = ...\<close> throws on the JSON value \<^verbatim>\<open>null\<close>;
  the handler catches neither. Every other JSON value is destructured: \<open>JsonValue r\<close>
  holds the two fields as they are bound, \<open>Undefined\<close> for a field the value lacks
  (both, for a number, a string, a boolean or an array).
\<close>

record stream_request =
  body_message :: jsval
  body_threadId :: jsval

datatype request_json = NotJson | JsonNull | JsonValue stream_request

text \<open>
  One call \<^verbatim>\<open>agent.stream(message, {format, memory: {thread, resource}, runtimeContext})\<close>.
  The runtime context is the map its \<^verbatim>\<open>set\<close> calls build.
\<close>

record stream_call =
  call_message :: string
  call_format :: "string option"
  call_thread :: jsval
  call_resource :: string
  call_runtimeContext :: "string \<rightharpoonup> string"

text \<open>
  The options of the memory that \<^verbatim>\<open>mastra/agents/chat-agent.ts\<close> gives the agent.
\<close>

record memory_options =
  lastMessages :: nat
  semanticRecall_topK :: nat
  semanticRecall_messageRange :: nat
  semanticRecall_scope :: string
  threads_generateTitle :: bool

definition chatAgent_memory_options :: memory_options where
  "chatAgent_memory_options =
     \<lparr>lastMessages = 20, semanticRecall_topK = 3, semanticRecall_messageRange = 2,
      semanticRecall_scope = ''resource'', threads_generateTitle = True\<rparr>"

text \<open>
  The agent is a collaborator: for the options of its memory, one call and the memory as
  it is, \<^verbatim>\<open>agent.stream\<close> gives the stream and the memory it leaves. Creating the thread
  of the call when it does not exist, titling it and storing the turn happen there, not
  in the handlers.
\<close>

type_synonym agent = "memory_options \<Rightarrow> stream_call \<Rightarrow> memory \<Rightarrow> model_stream \<times> memory"

fun string_of :: "jsval \<Rightarrow> string" where
  "string_of (Str s) = s"
| "string_of v = []"

definition resolvedThreadId :: "auth_session \<Rightarrow> jsval \<Rightarrow> jsval" where
  "resolvedThreadId session threadId =
     (if truthy threadId then threadId else Str (''thread-'' @ user_id session))"

definition runtimeContext_of :: "account list \<Rightarrow> auth_session \<Rightarrow> (string \<rightharpoonup> string)" where
  "runtimeContext_of accounts session =
     [''googleAccessToken'' \<mapsto>
        or_else (case getGoogleAccount accounts (user_id session) of
                   None \<Rightarrow> None
                 | Some a \<Rightarrow> accessToken a) [],
      ''userId'' \<mapsto> user_id session]"

subsection \<open>The frames of the hand-written event stream\<close>

definition traceId_frame :: "string \<Rightarrow> string" where
  "traceId_frame t = ''event: traceId'' @ [nl] @ ''data: '' @ JSON_stringify t @ [nl, nl]"

definition data_frame :: "string \<Rightarrow> string" where
  "data_frame chunk = ''data: '' @ JSON_stringify chunk @ [nl, nl]"

definition done_frame :: string where
  "done_frame = ''data: [DONE]'' @ [nl, nl]"

text \<open>
  The \<^verbatim>\<open>for await\<close> loop over the text stream: one \<^verbatim>\<open>controller.enqueue\<close> per chunk,
  on the queue \<open>q\<close> of what was enqueued before.
\<close>

fun enqueue_chunks :: "string list \<Rightarrow> string list \<Rightarrow> string list" where
  "enqueue_chunks q [] = q"
| "enqueue_chunks q (chunk # rest) = enqueue_chunks (q @ [data_frame chunk]) rest"

text \<open>
  \<^verbatim>\<open>start(controller)\<close>: the trace id frame when there is a trace id, the chunks,
  then \<^verbatim>\<open>[DONE]\<close> and \<^verbatim>\<open>close()\<close>, after which the reader still gets every frame.
  When the text stream throws, the \<^verbatim>\<open>catch\<close> calls \<^verbatim>\<open>controller.error\<close>, which empties
  the queue: the reader has the \<open>consumed\<close> frames it read before, and no more. The
  \<open>frames\<close> of the body are what its reader receives.
\<close>

definition start :: "nat \<Rightarrow> model_stream \<Rightarrow> sse_body" where
  "start consumed stream =
     (let q0 = (case stream_traceId stream of
                  None \<Rightarrow> []
                | Some t \<Rightarrow> if t = [] then [] else [traceId_frame t]);
          q1 = enqueue_chunks q0 (textStream stream)
      in case stream_end stream of
           Completes \<Rightarrow> \<lparr>frames = q1 @ [done_frame], controller = Closed\<rparr>
         | Throws \<Rightarrow> \<lparr>frames = take consumed q1, controller = Errored\<rparr>)"

definition sse_headers :: "(string \<times> string) list" where
  "sse_headers =
     [(''Content-Type'', ''text/event-stream''),
      (''Cache-Control'', ''no-cache''),
      (''Connection'', ''keep-alive'')]"

text \<open>
  The handler of the routes file that also serves the thread routes. It returns the reply,
  the calls it made to the agent, and the memory as the agent leaves it.
\<close>

definition chat_post_stream ::
  "agent \<Rightarrow> account list \<Rightarrow> nat \<Rightarrow> memory \<Rightarrow> auth_session \<Rightarrow> request_json
   \<Rightarrow> unit reply \<times> stream_call list \<times> memory" where
  "chat_post_stream Agent accounts consumed mem session json =
     (case json of
        NotJson \<Rightarrow> (Unhandled, [], mem)
      | JsonNull \<Rightarrow> (Unhandled, [], mem)
      | JsonValue body \<Rightarrow>
          if \<not> truthy (body_message body) \<or> \<not> typeof_string (body_message body)
          then (ErrorJson 400 ''Message is required'', [], mem)
          else
            let call = \<lparr>call_message = string_of (body_message body),
                        call_format = None,
                        call_thread = resolvedThreadId session (body_threadId body),
                        call_resource = user_id session,
                        call_runtimeContext = runtimeContext_of accounts session\<rparr>;
                (stream, mem') = Agent chatAgent_memory_options call mem
            in (EventStream sse_headers (start consumed stream), [call], mem'))"

text \<open>The handler of \<^verbatim>\<open>routes/chat.ts\<close>, which leaves the framing to the AI SDK.\<close>

definition chat_post_stream_aisdk ::
  "agent \<Rightarrow> account list \<Rightarrow> memory \<Rightarrow> auth_session \<Rightarrow> request_json
   \<Rightarrow> unit reply \<times> stream_call list \<times> memory" where
  "chat_post_stream_aisdk Agent accounts mem session json =
     (case json of
        NotJson \<Rightarrow> (Unhandled, [], mem)
      | JsonNull \<Rightarrow> (Unhandled, [], mem)
      | JsonValue body \<Rightarrow>
          if \<not> truthy (body_message body) \<or> \<not> typeof_string (body_message body)
          then (ErrorJson 400 ''Message is required'', [], mem)
          else
            let call = \<lparr>call_message = string_of (body_message body),
                        call_format = Some ''aisdk'',
                        call_thread = resolvedThreadId session (body_threadId body),
                        call_resource = user_id session,
                        call_runtimeContext = runtimeContext_of accounts session\<rparr>;
                (stream, mem') = Agent chatAgent_memory_options call mem
            in (UIMessageStream stream, [call], mem'))"

text \<open>The routes, behind \<^verbatim>\<open>chat.use("*", requireAuth)\<close>.\<close>

definition chat_stream_route ::
  "agent \<Rightarrow> account list \<Rightarrow> nat \<Rightarrow> memory \<Rightarrow> auth_session option \<Rightarrow> request_json
   \<Rightarrow> unit reply \<times> stream_call list \<times> memory" where
  "chat_stream_route Agent accounts consumed mem session json =
     requireAuth session ([], mem) (\<lambda>s. chat_post_stream Agent accounts consumed mem s json)"

definition chat_stream_route_aisdk ::
  "agent \<Rightarrow> account list \<Rightarrow> memory \<Rightarrow> auth_session option \<Rightarrow> request_json
   \<Rightarrow> unit reply \<times> stream_call list \<times> memory" where
  "chat_stream_route_aisdk Agent accounts mem session json =
     requireAuth session ([], mem) (\<lambda>s. chat_post_stream_aisdk Agent accounts mem s json)"

subsection \<open>Reading one frame, as a client of the stream does\<close>

datatype frame = TraceIdFrame string | TextFrame string | DoneFrame

definition strip_prefix :: "string \<Rightarrow> string \<Rightarrow> string option" where
  "strip_prefix p s = (if take (length p) s = p then Some (drop (length p) s) else None)"

definition strip_suffix :: "string \<Rightarrow> string \<Rightarrow> string option" where
  "strip_suffix p s =
     (if length p \<le> length s \<and> drop (length s - length p) s = p
      then Some (take (length s - length p) s) else None)"

definition parse_frame :: "string \<Rightarrow> frame option" where
  "parse_frame f =
     (case strip_suffix [nl, nl] f of
        None \<Rightarrow> None
      | Some b \<Rightarrow>
          (case strip_prefix (''event: traceId'' @ [nl] @ ''data: '') b of
             Some j \<Rightarrow> map_option TraceIdFrame (JSON_parse_string j)
           | None \<Rightarrow>
               (case strip_prefix ''data: '' b of
                  None \<Rightarrow> None
                | Some d \<Rightarrow>
                    if d = ''[DONE]'' then Some DoneFrame
                    else map_option TextFrame (JSON_parse_string d))))"

section \<open>Tool adapters (\<^verbatim>\<open>mastra/tools\<close>)\<close>

text \<open>
  \<^verbatim>\<open>fetch\<close> is the remote service. A request is the endpoint with the search parameters
  the tool sets, and the bearer token; the service is split by endpoint, since each
  answers its own JSON, and it answers every request with a response, ok or not. A tool
  returns its result, or the error it throws, together with the requests it issued, in
  order. \<^verbatim>\<open>maxResults\<close> is an integer.
\<close>

datatype endpoint =
    PeopleConnections int
  | GmailMessagesList int "string option"
  | GmailMessagesGet string

record http_request =
  req_endpoint :: endpoint
  req_bearer :: string

record 'a http_response =
  resp_ok :: bool
  resp_status :: nat
  resp_text :: string
  resp_json :: 'a

record person =
  names :: "string option list option"
  emailAddresses :: "string option list option"
  phoneNumbers :: "string option list option"

record gmail_payload =
  headers :: "(string \<times> string) list option"

record gmail_message =
  payload :: "gmail_payload option"
  snippet :: "string option"

record upstream =
  people_connections :: "http_request \<Rightarrow> person list option http_response"
  gmail_messages_list :: "http_request \<Rightarrow> string list option http_response"
  gmail_messages_get :: "http_request \<Rightarrow> gmail_message http_response"

record tool_input =
  input_query :: "string option"
  input_maxResults :: "int option"

datatype js_error = Error string

record contact =
  contact_name :: string
  contact_email :: "string option"
  contact_phone :: "string option"

record email =
  email_id :: string
  email_subject :: string
  email_from :: string
  email_date :: string
  email_snippet :: string

text \<open>\<^verbatim>\<open>runtimeContext?.get("googleAccessToken")\<close>\<close>

definition get_googleAccessToken :: "(string \<rightharpoonup> string) option \<Rightarrow> string option" where
  "get_googleAccessToken runtimeContext =
     (case runtimeContext of None \<Rightarrow> None | Some rc \<Rightarrow> rc ''googleAccessToken'')"

text \<open>\<^verbatim>\<open>xs?.[0]?.value\<close>, on the list of the \<^verbatim>\<open>value\<close> (or \<^verbatim>\<open>displayName\<close>) fields.\<close>

definition first_value :: "string option list option \<Rightarrow> string option" where
  "first_value xs = (case xs of None \<Rightarrow> None | Some [] \<Rightarrow> None | Some (v # _) \<Rightarrow> v)"

definition contact_of :: "person \<Rightarrow> contact" where
  "contact_of p =
     \<lparr>contact_name = or_else (first_value (names p)) ''Unknown'',
      contact_email = first_value (emailAddresses p),
      contact_phone = first_value (phoneNumbers p)\<rparr>"

text \<open>\<^verbatim>\<open>context.maxResults ?? 10\<close>\<close>

definition maxResults_of :: "tool_input \<Rightarrow> int" where
  "maxResults_of context = (case input_maxResults context of None \<Rightarrow> 10 | Some n \<Rightarrow> n)"

definition connections_request :: "string \<Rightarrow> tool_input \<Rightarrow> http_request" where
  "connections_request token context =
     \<lparr>req_endpoint = PeopleConnections (maxResults_of context), req_bearer = token\<rparr>"

definition googleContactsTool_execute ::
  "upstream \<Rightarrow> tool_input \<Rightarrow> (string \<rightharpoonup> string) option
   \<Rightarrow> (js_error + contact list) \<times> http_request list" where
  "googleContactsTool_execute up context runtimeContext =
     (case get_googleAccessToken runtimeContext of
        None \<Rightarrow> (Inl (Error ''Google access token not available''), [])
      | Some token \<Rightarrow>
          if token = [] then (Inl (Error ''Google access token not available''), [])
          else
            let req = connections_request token context;
                response = people_connections up req
            in if \<not> resp_ok response
               then (Inl (Error (''Failed to fetch contacts: ''
                                 @ string_of_nat (resp_status response) @ '' ''
                                 @ resp_text response)), [req])
               else (Inr (map contact_of
                            (case resp_json response of None \<Rightarrow> [] | Some ps \<Rightarrow> ps)),
                     [req]))"

text \<open>\<^verbatim>\<open>xs.slice(0, e)\<close>: a negative end counts from the end of the array.\<close>

definition slice0 :: "'a list \<Rightarrow> int \<Rightarrow> 'a list" where
  "slice0 xs e =
     (if e < 0 then take (nat (int (length xs) + e)) xs else take (nat e) xs)"

text \<open>\<^verbatim>\<open>headers.find((h) => h.name === n)?.value\<close>\<close>

definition header_value :: "(string \<times> string) list \<Rightarrow> string \<Rightarrow> string option" where
  "header_value hs n = map_option snd (find (\<lambda>h. fst h = n) hs)"

definition detail_request :: "string \<Rightarrow> string \<Rightarrow> http_request" where
  "detail_request token msg_id = \<lparr>req_endpoint = GmailMessagesGet msg_id, req_bearer = token\<rparr>"

text \<open>
  The list request: \<^verbatim>\<open>maxResults\<close> always, and \<^verbatim>\<open>q\<close> under \<^verbatim>\<open>if (context.query)\<close>.
\<close>

definition list_request :: "string \<Rightarrow> tool_input \<Rightarrow> http_request" where
  "list_request token context =
     \<lparr>req_endpoint =
        GmailMessagesList (maxResults_of context)
          (case input_query context of
             None \<Rightarrow> None
           | Some s \<Rightarrow> if s = [] then None else Some s),
      req_bearer = token\<rparr>"

text \<open>\<^verbatim>\<open>detail.payload?.headers || []\<close>\<close>

definition detail_headers :: "gmail_message \<Rightarrow> (string \<times> string) list" where
  "detail_headers detail =
     (case payload detail of
        None \<Rightarrow> []
      | Some pl \<Rightarrow> (case headers pl of None \<Rightarrow> [] | Some h \<Rightarrow> h))"

text \<open>The callback of \<^verbatim>\<open>messages.slice(0, maxResults).map\<close>, for one listed message.\<close>

definition email_of :: "upstream \<Rightarrow> string \<Rightarrow> string \<Rightarrow> email" where
  "email_of up token msg_id =
     (let detailResponse = gmail_messages_get up (detail_request token msg_id)
      in if \<not> resp_ok detailResponse
         then \<lparr>email_id = msg_id, email_subject = ''Error fetching email'',
               email_from = ''Unknown'', email_date = [], email_snippet = []\<rparr>
         else
           let detail = resp_json detailResponse;
               hs = detail_headers detail
           in \<lparr>email_id = msg_id,
               email_subject = or_else (header_value hs ''Subject'') ''No Subject'',
               email_from = or_else (header_value hs ''From'') ''Unknown'',
               email_date = or_else (header_value hs ''Date'') [],
               email_snippet = or_else (snippet detail) []\<rparr>)"

definition googleGmailTool_execute ::
  "upstream \<Rightarrow> tool_input \<Rightarrow> (string \<rightharpoonup> string) option
   \<Rightarrow> (js_error + email list) \<times> http_request list" where
  "googleGmailTool_execute up context runtimeContext =
     (case get_googleAccessToken runtimeContext of
        None \<Rightarrow> (Inl (Error ''Google access token not available''), [])
      | Some token \<Rightarrow>
          if token = [] then (Inl (Error ''Google access token not available''), [])
          else
            let maxResults = maxResults_of context;
                listReq = list_request token context;
                listResponse = gmail_messages_list up listReq
            in if \<not> resp_ok listResponse
               then (Inl (Error (''Failed to fetch emails: ''
                                 @ string_of_nat (resp_status listResponse) @ '' ''
                                 @ resp_text listResponse)), [listReq])
               else
                 let messages = (case resp_json listResponse of None \<Rightarrow> [] | Some ms \<Rightarrow> ms);
                     listed = slice0 messages maxResults
                 in (Inr (map (email_of up token) listed),
                     listReq # map (detail_request token) listed))"

section \<open>Threads and messages (\<^verbatim>\<open>routes/chat.ts\<close>)\<close>

subsection \<open>\<^verbatim>\<open>GET /chat/history\<close>\<close>







subsection \<open>\<^verbatim>\<open>DELETE /chat/threads/:threadId\<close>\<close>

datatype success_body = Success_true

text \<open>The handler returns the reply and the memory it leaves.\<close>

definition chat_delete_thread ::
  "memory option \<Rightarrow> auth_session \<Rightarrow> string \<Rightarrow> success_body reply \<times> memory option" where
  "chat_delete_thread memory session threadId =
     (case memory of
        None \<Rightarrow> (ErrorJson 500 ''Memory not configured'', memory)
      | Some mem \<Rightarrow>
          (case getThreadById mem threadId of
             None \<Rightarrow> (ErrorJson 404 ''Thread not found'', memory)
           | Some t \<Rightarrow>
               if thread_resourceId t \<noteq> user_id session
               then (ErrorJson 404 ''Thread not found'', memory)
               else
                 let uiMessages = memory_query mem threadId None;
                     mem' = (if length uiMessages > 0
                             then deleteMessages (map message_id uiMessages) mem
                             else mem)
                 in (Json 200 Success_true, Some mem')))"

definition chat_delete_thread_route ::
  "memory option \<Rightarrow> auth_session option \<Rightarrow> string \<Rightarrow> success_body reply \<times> memory option" where
  "chat_delete_thread_route memory session threadId =
     requireAuth session memory (\<lambda>s. chat_delete_thread memory s threadId)"

section \<open>Traces (\<^verbatim>\<open>routes/traces.ts\<close>)\<close>

text \<open>
  A row of \<^verbatim>\<open>mastra_ai_spans\<close>. The metadata is a JSON object, kept as its list of
  fields with their text. The storage is the table, or \<open>None\<close> when a query on it
  throws, which the \<^verbatim>\<open>catch\<close> of each handler answers with 500.
\<close>

record span =
  span_spanId :: string
  span_traceId :: string
  span_parentSpanId :: "string option"
  span_name :: string
  span_spanType :: string
  span_startedAt :: int
  span_endedAt :: "int option"
  span_input :: string
  span_output :: string
  span_metadata :: "(string \<times> string) list"
  span_attributes :: string
  span_error :: "string option"

subsection \<open>\<^verbatim>\<open>GET /traces/conversation/:threadId\<close>\<close>

record root_row =
  row_traceId :: string
  row_startedAt :: int
  row_endedAt :: "int option"
  row_metadata :: "(string \<times> string) list"
  row_input :: string
  row_output :: string
  row_name :: string

definition root_row_of :: "span \<Rightarrow> root_row" where
  "root_row_of s =
     \<lparr>row_traceId = span_traceId s, row_startedAt = span_startedAt s,
      row_endedAt = span_endedAt s, row_metadata = span_metadata s,
      row_input = span_input s, row_output = span_output s, row_name = span_name s\<rparr>"

text \<open>
  \<^verbatim>\<open>SELECT DISTINCT ... WHERE metadata->>'threadId' = $1 AND "parentSpanId" IS NULL
  ORDER BY "startedAt" ASC\<close>
\<close>

definition select_root_spans :: "span list \<Rightarrow> string \<Rightarrow> root_row list" where
  "select_root_spans spans_table threadId =
     sort_key row_startedAt
       (remdups (map root_row_of
          (filter (\<lambda>s. map_of (span_metadata s) ''threadId'' = Some threadId \<and>
                       span_parentSpanId s = None) spans_table)))"

record trace_summary =
  summary_traceId :: string
  summary_name :: string
  summary_startTime :: int
  summary_endTime :: "int option"
  summary_input :: string
  summary_output :: string
  summary_metadata :: "(string \<times> string) list"

definition summary_of :: "root_row \<Rightarrow> trace_summary" where
  "summary_of r =
     \<lparr>summary_traceId = row_traceId r, summary_name = row_name r,
      summary_startTime = row_startedAt r, summary_endTime = row_endedAt r,
      summary_input = row_input r, summary_output = row_output r,
      summary_metadata = row_metadata r\<rparr>"

record conversation_body =
  conv_threadId :: string
  conv_title :: string
  conv_traces :: "trace_summary list"

text \<open>The handler has the session in its context and never reads it.\<close>

definition traces_get_conversation ::
  "span list option \<Rightarrow> memory option \<Rightarrow> auth_session \<Rightarrow> string
   \<Rightarrow> conversation_body reply \<times> unit" where
  "traces_get_conversation storage memory session threadId =
     (case storage of
        None \<Rightarrow> (ErrorJson 500 ''Failed to fetch conversation traces'', ())
      | Some spans_table \<Rightarrow>
          let rootSpans = select_root_spans spans_table threadId;
              thread = (case memory of None \<Rightarrow> None | Some mem \<Rightarrow> getThreadById mem threadId)
          in (Json 200
                \<lparr>conv_threadId = threadId,
                 conv_title = or_else (case thread of None \<Rightarrow> None | Some t \<Rightarrow> thread_title t)
                                ''Untitled Chat'',
                 conv_traces = map summary_of rootSpans\<rparr>, ()))"

definition traces_conversation_route ::
  "span list option \<Rightarrow> memory option \<Rightarrow> auth_session option \<Rightarrow> string
   \<Rightarrow> conversation_body reply \<times> unit" where
  "traces_conversation_route storage memory session threadId =
     requireAuth session () (\<lambda>s. traces_get_conversation storage memory s threadId)"

subsection \<open>\<^verbatim>\<open>GET /traces/:traceId\<close>\<close>









section \<open>Properties the routes are checked against\<close>

text \<open>A valid message is a string that is not empty.\<close>

fun valid_message :: "jsval \<Rightarrow> bool" where
  "valid_message (Str s) = (s \<noteq> [])"
| "valid_message v = False"

text \<open>
  The frames a client is to read from one agent run: the trace id, when there is one,
  then every chunk in order, then the end marker when the run completes; when the run
  throws, the first \<open>consumed\<close> of them, which the client had read by then.
\<close>

definition expected_frames :: "nat \<Rightarrow> model_stream \<Rightarrow> frame list" where
  "expected_frames consumed stream =
     (let sent = (case stream_traceId stream of
                    None \<Rightarrow> []
                  | Some t \<Rightarrow> if t = [] then [] else [TraceIdFrame t])
                 @ map TextFrame (textStream stream)
      in case stream_end stream of
           Completes \<Rightarrow> sent @ [DoneFrame]
         | Throws \<Rightarrow> take consumed sent)"



text \<open>No credential was resolved: the access token is absent or empty.\<close>

definition no_token :: "(string \<rightharpoonup> string) option \<Rightarrow> bool" where
  "no_token runtimeContext =
     (case get_googleAccessToken runtimeContext of None \<Rightarrow> True | Some t \<Rightarrow> t = [])"

text \<open>The sub-result that stands for a message whose detail request failed.\<close>

definition placeholder :: "string \<Rightarrow> email" where
  "placeholder msg_id =
     \<lparr>email_id = msg_id, email_subject = ''Error fetching email'', email_from = ''Unknown'',
      email_date = [], email_snippet = []\<rparr>"

text \<open>A text field defaults to a sentinel when the upstream lacks it or has it empty.\<close>

definition sentinel :: "string option \<Rightarrow> string \<Rightarrow> string" where
  "sentinel v d = (case v of None \<Rightarrow> d | Some s \<Rightarrow> if s = [] then d else s)"

text \<open>
  The caller owns the thread: the lookup by id finds a thread, and its resource is the
  caller.
\<close>

definition owned_thread :: "memory \<Rightarrow> string \<Rightarrow> string \<Rightarrow> bool" where
  "owned_thread mem threadId userId =
     (case getThreadById mem threadId of
        None \<Rightarrow> False
      | Some t \<Rightarrow> thread_resourceId t = userId)"


section \<open>Sample data\<close>

definition alice :: auth_session where
  "alice = \<lparr>user_id = ''u1'', user_name = ''Alice'', user_email = ''alice@example.com'',
            session_id = ''s1''\<rparr>"

definition hello_body :: stream_request where
  "hello_body = \<lparr>body_message = Str ''Hello'', body_threadId = Undefined\<rparr>"

definition bye_body :: stream_request where
  "bye_body = \<lparr>body_message = Str ''Bye'', body_threadId = Undefined\<rparr>"

text \<open>Sample agents: each answers every call alike and leaves the memory as it is.\<close>

definition agent_without_trace :: agent where
  "agent_without_trace options call mem =
     (\<lparr>stream_traceId = None, textStream = [''Hi''], stream_end = Completes\<rparr>, mem)"

definition agent_with_trace :: agent where
  "agent_with_trace options call mem =
     (\<lparr>stream_traceId = Some ''4bf92f'', textStream = [''Hi'', '' there''],
       stream_end = Completes\<rparr>, mem)"

definition agent_throwing :: agent where
  "agent_throwing options call mem =
     (\<lparr>stream_traceId = Some ''4bf92f'', textStream = [''Hi'', '' there''],
       stream_end = Throws\<rparr>, mem)"


definition no_memory :: memory where
  "no_memory = \<lparr>threads = [], messages = []\<rparr>"

definition no_upstream :: upstream where
  "no_upstream =
     \<lparr>people_connections =
        (\<lambda>r. \<lparr>resp_ok = False, resp_status = 503, resp_text = ''unavailable'', resp_json = None\<rparr>),
      gmail_messages_list =
        (\<lambda>r. \<lparr>resp_ok = False, resp_status = 503, resp_text = ''unavailable'', resp_json = None\<rparr>),
      gmail_messages_get =
        (\<lambda>r. \<lparr>resp_ok = False, resp_status = 503, resp_text = ''unavailable'',
               resp_json = \<lparr>payload = None, snippet = None\<rparr>\<rparr>)\<rparr>"

definition default_input :: tool_input where
  "default_input = \<lparr>input_query = None, input_maxResults = Some 10\<rparr>"

definition token_context :: "(string \<rightharpoonup> string) option" where
  "token_context = Some [''googleAccessToken'' \<mapsto> ''ya29.token'', ''userId'' \<mapsto> ''u1'']"

definition readable_message :: gmail_message where
  "readable_message =
     \<lparr>payload = Some \<lparr>headers = Some [(''From'', ''ada@example.com''), (''Date'', ''Mon'')]\<rparr>,
      snippet = Some ''See you''\<rparr>"

definition sample_upstream :: upstream where
  "sample_upstream =
     \<lparr>people_connections =
        (\<lambda>r. \<lparr>resp_ok = True, resp_status = 200, resp_text = [],
               resp_json = Some
                 [\<lparr>names = Some [Some ''Ada''], emailAddresses = Some [Some ''ada@example.com''],
                   phoneNumbers = None\<rparr>,
                  \<lparr>names = None, emailAddresses = None, phoneNumbers = Some [Some ''555'']\<rparr>]\<rparr>),
      gmail_messages_list =
        (\<lambda>r. \<lparr>resp_ok = True, resp_status = 200, resp_text = [],
               resp_json = Some [''m1'', ''m2'', ''m3'']\<rparr>),
      gmail_messages_get =
        (\<lambda>r. if req_endpoint r = GmailMessagesGet ''m1''
             then \<lparr>resp_ok = True, resp_status = 200, resp_text = [],
                   resp_json = readable_message\<rparr>
             else \<lparr>resp_ok = False, resp_status = 404, resp_text = ''Not Found'',
                   resp_json = \<lparr>payload = None, snippet = None\<rparr>\<rparr>)\<rparr>"

definition first_only_input :: tool_input where
  "first_only_input = \<lparr>input_query = None, input_maxResults = Some 1\<rparr>"

definition first_two_input :: tool_input where
  "first_two_input = \<lparr>input_query = None, input_maxResults = Some 2\<rparr>"

definition message_at :: "string \<Rightarrow> string \<Rightarrow> string \<Rightarrow> int \<Rightarrow> message" where
  "message_at mid tid uid t =
     \<lparr>message_id = mid, message_threadId = tid, message_resourceId = uid,
      role = ''user'', content = ''hi'', createdAt = Some t\<rparr>"

definition sample_memory :: memory where
  "sample_memory =
     \<lparr>threads =
        [\<lparr>thread_id = ''thread-u1'', thread_resourceId = ''u1'', thread_title = Some ''First'',
          thread_createdAt = 1, thread_updatedAt = 9\<rparr>,
         \<lparr>thread_id = ''t-bob'', thread_resourceId = ''u2'', thread_title = Some ''Private'',
          thread_createdAt = 2, thread_updatedAt = 8\<rparr>],
      messages =
        [message_at ''a3'' ''thread-u1'' ''u1'' 30,
         message_at ''b1'' ''t-bob'' ''u2'' 5,
         message_at ''a1'' ''thread-u1'' ''u1'' 10,
         message_at ''a2'' ''thread-u1'' ''u1'' 20]\<rparr>"

definition span_at :: "string \<Rightarrow> string \<Rightarrow> string option \<Rightarrow> int \<Rightarrow> int option \<Rightarrow> string \<Rightarrow> span" where
  "span_at sid tid parent t0 t1 thread =
     \<lparr>span_spanId = sid, span_traceId = tid, span_parentSpanId = parent,
      span_name = ''run'', span_spanType = ''agent_run'', span_startedAt = t0,
      span_endedAt = t1, span_input = ''in'', span_output = ''out'',
      span_metadata = [(''threadId'', thread)], span_attributes = [], span_error = None\<rparr>"

definition sample_spans :: "span list" where
  "sample_spans =
     [span_at ''s2'' ''trace-1'' (Some ''s1'') 120 (Some 150) ''t-bob'',
      span_at ''s1'' ''trace-1'' None 100 (Some 200) ''t-bob'',
      span_at ''s9'' ''trace-2'' None 300 None ''thread-u1'']"

section \<open>\<^verbatim>\<open>JSON.stringify\<close> and the frames\<close>

lemma valid_message_iff: "valid_message v \<longleftrightarrow> truthy v \<and> typeof_string v"
  by (cases v) simp_all

lemma enqueue_chunks_map: "enqueue_chunks q cs = q @ map data_frame cs"
  by (induction cs arbitrary: q) simp_all

lemma hex_val_hex_digit: "n < 16 \<Longrightarrow> hex_val (hex_digit n) = Some n"
  by (auto simp: hex_val_def hex_digit_def Let_def)

lemma hex4_ctrl:
  assumes "(of_char c :: nat) < 32"
  shows "hex4 (CHR ''0'') (CHR ''0'') (hex_digit (of_char c div 16)) (hex_digit (of_char c mod 16))
         = Some (of_char c)"
proof -
  have a: "(of_char c :: nat) div 16 < 16" using assms by simp
  have b: "(of_char c :: nat) mod 16 < 16" by simp
  have z: "hex_val (CHR ''0'') = Some 0" by (simp add: hex_val_def)
  show ?thesis
    by (simp add: hex4_def z hex_val_hex_digit [OF a] hex_val_hex_digit [OF b])
qed

lemma json_unescape_plain:
  assumes "c \<noteq> bslash" "c \<noteq> dquote" "\<not> (of_char c :: nat) < 32"
  shows "json_unescape (c # t) = map_option ((#) c) (json_unescape t)"
  using assms by (cases t) simp_all

lemma json_unescape_u:
  assumes "hex4 a b c d = Some n" "n < 256"
  shows "json_unescape (bslash # CHR ''u'' # a # b # c # d # t)
         = map_option ((#) (char_of n)) (json_unescape t)"
  using assms by simp

lemma json_unescape_escape:
  "json_unescape (json_escape_char c @ t) = map_option ((#) c) (json_unescape t)"
proof -
  consider (short) "c \<in> {CHR 0x08, CHR 0x09, CHR 0x0A, CHR 0x0C, CHR 0x0D, dquote, bslash}"
    | (ctrl) "c \<notin> {CHR 0x08, CHR 0x09, CHR 0x0A, CHR 0x0C, CHR 0x0D, dquote, bslash}" "(of_char c :: nat) < 32"
    | (plain) "c \<notin> {CHR 0x08, CHR 0x09, CHR 0x0A, CHR 0x0C, CHR 0x0D, dquote, bslash}" "\<not> (of_char c :: nat) < 32"
    by blast
  then show ?thesis
  proof cases
    case short
    then show ?thesis
      by (auto simp: json_escape_char_def unescape_short_def)
  next
    case ctrl
    have "json_escape_char c = [bslash, CHR ''u'', CHR ''0'', CHR ''0'',
         hex_digit (of_char c div 16), hex_digit (of_char c mod 16)]"
      using ctrl by (simp add: json_escape_char_def)
    moreover have "(of_char c :: nat) < 256" using ctrl by simp
    ultimately show ?thesis
      using json_unescape_u [OF hex4_ctrl [OF ctrl(2)]] by simp
  next
    case plain
    then have "json_escape_char c = [c]" by (simp add: json_escape_char_def)
    then show ?thesis using plain json_unescape_plain by simp
  qed
qed

lemma json_unescape_concat:
  "json_unescape (concat (map json_escape_char s)) = Some s"
  by (induction s) (simp_all add: json_unescape_escape)

lemma JSON_parse_stringify: "JSON_parse_string (JSON_stringify s) = Some s"
  by (simp add: JSON_parse_string_def JSON_stringify_def json_unescape_concat)

lemma strip_suffix_append: "strip_suffix p (s @ p) = Some s"
  by (simp add: strip_suffix_def)

lemma strip_prefix_append: "strip_prefix p (p @ s) = Some s"
  by (simp add: strip_prefix_def)

lemma JSON_stringify_Cons: "\<exists>r. JSON_stringify s = dquote # r"
  by (simp add: JSON_stringify_def)

lemma of_char_hex_digit:
  "n < 16 \<Longrightarrow> (of_char (hex_digit n) :: nat) = (if n < 10 then 48 + n else 87 + n)"
  by (simp add: hex_digit_def)

lemma hex_digit_not_nl: "n < 16 \<Longrightarrow> hex_digit n \<noteq> nl"
proof
  assume n: "n < 16" and e: "hex_digit n = nl"
  have "(of_char (hex_digit n) :: nat) = 10" by (simp add: e)
  with of_char_hex_digit [OF n] show False by (simp split: if_splits)
qed

text \<open>An encoded chunk has no line break: a frame is broken only by its own line ends.\<close>

lemma JSON_stringify_one_line: "nl \<notin> set (JSON_stringify s)"
proof -
  have "nl \<notin> set (json_escape_char c)" for c
  proof -
    have a: "hex_digit (of_char c div 16) \<noteq> nl" if "(of_char c :: nat) < 32"
      using that by (intro hex_digit_not_nl) simp
    have b: "hex_digit (of_char c mod 16) \<noteq> nl"
      by (intro hex_digit_not_nl) simp
    show ?thesis using a b by (auto simp: json_escape_char_def)
  qed
  then show ?thesis by (induction s) (auto simp: JSON_stringify_def)
qed

lemma parse_frame_append:
  "parse_frame (b @ [nl, nl]) =
     (case strip_prefix (''event: traceId'' @ [nl] @ ''data: '') b of
        Some j \<Rightarrow> map_option TraceIdFrame (JSON_parse_string j)
      | None \<Rightarrow>
          (case strip_prefix ''data: '' b of
             None \<Rightarrow> None
           | Some d \<Rightarrow>
               if d = ''[DONE]'' then Some DoneFrame
               else map_option TextFrame (JSON_parse_string d)))"
  by (simp only: parse_frame_def strip_suffix_append option.case)

lemma parse_data_frame: "parse_frame (data_frame c) = Some (TextFrame c)"
proof -
  obtain r where r: "JSON_stringify c = dquote # r"
    using JSON_stringify_Cons by blast
  have d: "JSON_stringify c \<noteq> ''[DONE]''" by (simp add: r)
  have "data_frame c = (''data: '' @ JSON_stringify c) @ [nl, nl]"
    by (simp add: data_frame_def)
  then have "parse_frame (data_frame c) = parse_frame ((''data: '' @ JSON_stringify c) @ [nl, nl])"
    by simp
  also have "\<dots> = Some (TextFrame c)"
    by (subst parse_frame_append) (simp add: strip_prefix_def JSON_parse_stringify d)
  finally show ?thesis .
qed

lemma parse_traceId_frame: "parse_frame (traceId_frame t) = Some (TraceIdFrame t)"
proof -
  have "traceId_frame t = ((''event: traceId'' @ [nl] @ ''data: '') @ JSON_stringify t) @ [nl, nl]"
    by (simp add: traceId_frame_def)
  then have "parse_frame (traceId_frame t)
             = parse_frame (((''event: traceId'' @ [nl] @ ''data: '') @ JSON_stringify t) @ [nl, nl])"
    by simp
  also have "\<dots> = Some (TraceIdFrame t)"
    by (subst parse_frame_append) (simp add: strip_prefix_def JSON_parse_stringify)
  finally show ?thesis .
qed

lemma parse_done_frame: "parse_frame done_frame = Some DoneFrame"
  by (simp add: parse_frame_def done_frame_def strip_suffix_def strip_prefix_def)

lemma parse_enqueued:
  "map parse_frame
     (enqueue_chunks (case tid of None \<Rightarrow> [] | Some t \<Rightarrow> if t = [] then [] else [traceId_frame t]) cs)
   = map Some ((case tid of None \<Rightarrow> [] | Some t \<Rightarrow> if t = [] then [] else [TraceIdFrame t])
               @ map TextFrame cs)"
  by (simp add: enqueue_chunks_map parse_data_frame parse_traceId_frame comp_def
      split: option.splits)

lemma parse_start_frames:
  "map parse_frame (frames (start consumed stream)) = map Some (expected_frames consumed stream)"
proof (cases "stream_end stream")
  case Completes
  then show ?thesis
    by (simp add: start_def expected_frames_def Let_def parse_enqueued parse_done_frame)
next
  case Throws
  let ?q = "enqueue_chunks
              (case stream_traceId stream of
                 None \<Rightarrow> []
               | Some t \<Rightarrow> if t = [] then [] else [traceId_frame t])
              (textStream stream)"
  let ?sent = "(case stream_traceId stream of
                  None \<Rightarrow> []
                | Some t \<Rightarrow> if t = [] then [] else [TraceIdFrame t])
               @ map TextFrame (textStream stream)"
  have f: "frames (start consumed stream) = take consumed ?q"
    using Throws by (simp add: start_def Let_def)
  have e: "expected_frames consumed stream = take consumed ?sent"
    using Throws by (simp add: expected_frames_def Let_def)
  have "map parse_frame (take consumed ?q) = take consumed (map parse_frame ?q)"
    by (simp only: take_map)
  also have "\<dots> = take consumed (map Some ?sent)"
    by (simp only: parse_enqueued)
  also have "\<dots> = map Some (take consumed ?sent)"
    by (simp only: take_map)
  finally show ?thesis by (simp only: f e)
qed

lemma start_controller:
  "controller (start consumed stream)
     = (case stream_end stream of Completes \<Rightarrow> Closed | Throws \<Rightarrow> Errored)"
  by (simp add: start_def Let_def split: stream_end.splits)

text \<open>
  C1, as the handlers have it. An authenticated \<^verbatim>\<open>POST /chat/stream\<close> with a valid
  message is answered by the handler that writes the event stream itself with status 200
  and content type \<^verbatim>\<open>text/event-stream\<close>. The frames its reader receives, each read on
  its own, are: the trace id frame first if the agent run has a non-empty trace id (none
  otherwise), one text frame per chunk of the model in the order of the chunks, and the
  \<^verbatim>\<open>[DONE]\<close> frame last, if the text stream completes; if the text stream throws, the
  body is errored and its reader has only the frames it had read by then, the first of
  that sequence, without \<^verbatim>\<open>[DONE]\<close>. The handler of \<^verbatim>\<open>routes/chat.ts\<close> answers the same
  request with the response the AI SDK builds from the agent's stream, and writes no
  frame itself.
\<close>

theorem C1_stream_frames:
  assumes "valid_message (body_message body)"
  shows "let call = \<lparr>call_message = string_of (body_message body), call_format = None,
                     call_thread = resolvedThreadId session (body_threadId body),
                     call_resource = user_id session,
                     call_runtimeContext = runtimeContext_of accounts session\<rparr>;
             stream = fst (Agent chatAgent_memory_options call mem);
             reply = fst (chat_stream_route Agent accounts consumed mem (Some session)
                            (JsonValue body))
         in reply = EventStream sse_headers (start consumed stream)
            \<and> status_of reply = 200
            \<and> map_of sse_headers ''Content-Type'' = Some ''text/event-stream''
            \<and> map parse_frame (frames (start consumed stream))
                = map Some (expected_frames consumed stream)
            \<and> controller (start consumed stream)
                = (case stream_end stream of Completes \<Rightarrow> Closed | Throws \<Rightarrow> Errored)
            \<and> fst (chat_stream_route_aisdk Agent accounts mem (Some session) (JsonValue body))
                = UIMessageStream
                    (fst (Agent chatAgent_memory_options (call\<lparr>call_format := Some ''aisdk''\<rparr>) mem))"
  using assms
  by (simp add: chat_stream_route_def chat_stream_route_aisdk_def requireAuth_def
        chat_post_stream_def chat_post_stream_aisdk_def Let_def valid_message_iff
        parse_start_frames start_controller sse_headers_def split_beta)

theorem C1_stream_frames_witness:
  "valid_message (body_message hello_body) \<and>
   fst (chat_stream_route agent_with_trace [] 0 no_memory (Some alice) (JsonValue hello_body))
     = EventStream sse_headers
         \<lparr>frames = [traceId_frame ''4bf92f'', data_frame ''Hi'', data_frame '' there'', done_frame],
          controller = Closed\<rparr> \<and>
   map parse_frame [traceId_frame ''4bf92f'', data_frame ''Hi'', data_frame '' there'', done_frame]
     = [Some (TraceIdFrame ''4bf92f''), Some (TextFrame ''Hi''), Some (TextFrame '' there''),
        Some DoneFrame]"
proof -
  have v: "valid_message (body_message hello_body)" by (simp add: hello_body_def)
  have s: "start 0 (fst (agent_with_trace opts c m))
           = \<lparr>frames = [traceId_frame ''4bf92f'', data_frame ''Hi'', data_frame '' there'', done_frame],
              controller = Closed\<rparr>" for opts c m
    by (simp add: start_def agent_with_trace_def)
  have e: "expected_frames 0 (fst (agent_with_trace opts c m))
           = [TraceIdFrame ''4bf92f'', TextFrame ''Hi'', TextFrame '' there'', DoneFrame]" for opts c m
    by (simp add: expected_frames_def agent_with_trace_def)
  show ?thesis
    using v C1_stream_frames [OF v, where session = alice and Agent = agent_with_trace
        and accounts = "[]" and consumed = 0 and mem = no_memory]
    by (simp add: Let_def s e)
qed

text \<open>
  C1 as stated asks every reply for a trace id frame, for a final \<^verbatim>\<open>[DONE]\<close> and for
  frames of the handler's own. An agent run without a trace id gives two frames, the
  text chunk and \<^verbatim>\<open>[DONE]\<close>. A text stream that throws after its reader took one frame
  gives an errored body with the trace id frame alone. The handler of \<^verbatim>\<open>routes/chat.ts\<close>
  returns the response of the AI SDK.
\<close>

theorem C1_frames_counterexample:
  "fst (chat_stream_route agent_without_trace [] 0 no_memory (Some alice) (JsonValue hello_body))
     = EventStream sse_headers
         \<lparr>frames = [''data: '' @ [dquote] @ ''Hi'' @ [dquote, nl, nl],
                    ''data: [DONE]'' @ [nl, nl]],
          controller = Closed\<rparr>
   \<and> fst (chat_stream_route agent_throwing [] 1 no_memory (Some alice) (JsonValue hello_body))
     = EventStream sse_headers
         \<lparr>frames = [''event: traceId'' @ [nl] @ ''data: '' @ [dquote] @ ''4bf92f''
                      @ [dquote, nl, nl]],
          controller = Errored\<rparr>
   \<and> fst (chat_stream_route_aisdk agent_with_trace [] no_memory (Some alice)
            (JsonValue hello_body))
     = UIMessageStream
         \<lparr>stream_traceId = Some ''4bf92f'', textStream = [''Hi'', '' there''],
          stream_end = Completes\<rparr>"
  by (simp add: chat_stream_route_def chat_stream_route_aisdk_def requireAuth_def
        chat_post_stream_def chat_post_stream_aisdk_def Let_def
        hello_body_def agent_without_trace_def agent_throwing_def agent_with_trace_def
        start_def data_frame_def done_frame_def traceId_frame_def
        JSON_stringify_def json_escape_char_def)

section \<open>Validation and thread resolution of \<^verbatim>\<open>POST /chat/stream\<close>\<close>




text \<open>
  C2, as the handlers have it. For a valid request without a thread id (or with a falsy
  one) the handler makes no thread identity of its own: it calls the agent once, with
  the caller's default thread \<^verbatim>\<open>thread-<user id>\<close>, which does not depend on the message,
  and the caller as resource; the memory after the request is the one that call leaves.
\<close>

theorem C2_default_thread:
  assumes "valid_message (body_message body)" and "\<not> truthy (body_threadId body)"
  shows "let call = \<lparr>call_message = string_of (body_message body), call_format = None,
                     call_thread = Str (''thread-'' @ user_id session),
                     call_resource = user_id session,
                     call_runtimeContext = runtimeContext_of accounts session\<rparr>;
             call_aisdk = call\<lparr>call_format := Some ''aisdk''\<rparr>
         in snd (chat_stream_route Agent accounts consumed mem (Some session) (JsonValue body))
              = ([call], snd (Agent chatAgent_memory_options call mem))
            \<and> snd (chat_stream_route_aisdk Agent accounts mem (Some session) (JsonValue body))
              = ([call_aisdk], snd (Agent chatAgent_memory_options call_aisdk mem))"
  using assms
  by (simp add: chat_stream_route_def chat_stream_route_aisdk_def requireAuth_def
        chat_post_stream_def chat_post_stream_aisdk_def valid_message_iff Let_def
        resolvedThreadId_def split_beta)

theorem C2_default_thread_witness:
  "valid_message (body_message hello_body) \<and> \<not> truthy (body_threadId hello_body) \<and>
   snd (chat_stream_route agent_with_trace [] 0 no_memory (Some alice) (JsonValue hello_body))
     = ([\<lparr>call_message = ''Hello'', call_format = None, call_thread = Str ''thread-u1'',
          call_resource = ''u1'',
          call_runtimeContext = [''googleAccessToken'' \<mapsto> [], ''userId'' \<mapsto> ''u1'']\<rparr>],
        no_memory)"
proof -
  have v: "valid_message (body_message hello_body)" by (simp add: hello_body_def)
  have t: "\<not> truthy (body_threadId hello_body)" by (simp add: hello_body_def)
  show ?thesis
    using v t C2_default_thread [OF v t, where session = alice and Agent = agent_with_trace
        and accounts = "[]" and consumed = 0 and mem = no_memory]
    by (simp add: Let_def alice_def hello_body_def runtimeContext_of_def getGoogleAccount_def
          or_else_def agent_with_trace_def)
qed

text \<open>
  C2 as stated asks for a new thread for each such request. Two requests of one user
  with different messages and no thread id are both sent to the one thread
  \<^verbatim>\<open>thread-u1\<close>.
\<close>

theorem C2_same_thread_counterexample:
  "fst (snd (chat_stream_route agent_with_trace [] 0 no_memory (Some alice)
               (JsonValue hello_body)))
     = [\<lparr>call_message = ''Hello'', call_format = None, call_thread = Str ''thread-u1'',
         call_resource = ''u1'',
         call_runtimeContext = [''googleAccessToken'' \<mapsto> [], ''userId'' \<mapsto> ''u1'']\<rparr>]
   \<and> fst (snd (chat_stream_route agent_with_trace [] 0 no_memory (Some alice)
                  (JsonValue bye_body)))
     = [\<lparr>call_message = ''Bye'', call_format = None, call_thread = Str ''thread-u1'',
         call_resource = ''u1'',
         call_runtimeContext = [''googleAccessToken'' \<mapsto> [], ''userId'' \<mapsto> ''u1'']\<rparr>]"
  by (simp add: chat_stream_route_def requireAuth_def chat_post_stream_def Let_def
        hello_body_def bye_body_def alice_def resolvedThreadId_def runtimeContext_of_def
        getGoogleAccount_def or_else_def agent_with_trace_def)

section \<open>The tool adapters\<close>

text \<open>
  C3, with the message the tools throw. Without a credential both tools fail with
  \<^verbatim>\<open>Google access token not available\<close> and issue no request.
\<close>

theorem C3_token_required:
  assumes "no_token runtimeContext"
  shows "googleContactsTool_execute up context runtimeContext
           = (Inl (Error ''Google access token not available''), [])
         \<and> googleGmailTool_execute up context runtimeContext
           = (Inl (Error ''Google access token not available''), [])"
  using assms
  by (simp add: no_token_def googleContactsTool_execute_def googleGmailTool_execute_def
      split: option.splits)

theorem C3_token_required_witness:
  "no_token None \<and> no_token (Some [''googleAccessToken'' \<mapsto> []]) \<and>
   googleContactsTool_execute no_upstream default_input (Some [''googleAccessToken'' \<mapsto> []])
     = (Inl (Error ''Google access token not available''), []) \<and>
   googleGmailTool_execute no_upstream default_input None
     = (Inl (Error ''Google access token not available''), [])"
proof -
  have a: "no_token None" by (simp add: no_token_def get_googleAccessToken_def)
  have b: "no_token (Some [''googleAccessToken'' \<mapsto> []])"
    by (simp add: no_token_def get_googleAccessToken_def)
  show ?thesis
    using a b C3_token_required [OF a, of no_upstream default_input]
      C3_token_required [OF b, of no_upstream default_input]
    by simp
qed

text \<open>
  C3 as stated gives the message as \<^verbatim>\<open>access token not available\<close>; the message of
  the error is \<^verbatim>\<open>Google access token not available\<close>.
\<close>

theorem C3_message_counterexample:
  "fst (googleContactsTool_execute no_upstream default_input None)
     = Inl (Error ''Google access token not available'')
   \<and> fst (googleContactsTool_execute no_upstream default_input None)
     \<noteq> Inl (Error ''access token not available'')"
  by (simp add: googleContactsTool_execute_def get_googleAccessToken_def)

lemma slice0_all: "int (length xs) \<le> e \<Longrightarrow> slice0 xs e = xs"
  by (simp add: slice0_def)

lemma or_else_nonempty: "d \<noteq> [] \<Longrightarrow> or_else v d \<noteq> []"
  by (simp add: or_else_def split: option.splits)

lemma email_of_id: "email_id (email_of up token i) = i"
  by (simp add: email_of_def Let_def)

lemma email_of_nonempty:
  "email_subject (email_of up token i) \<noteq> [] \<and> email_from (email_of up token i) \<noteq> []"
  by (simp add: email_of_def Let_def or_else_nonempty)

lemma email_of_failed:
  "\<not> resp_ok (gmail_messages_get up (detail_request token i)) \<Longrightarrow>
   email_of up token i = placeholder i"
  by (simp add: email_of_def placeholder_def)

lemma email_of_ok:
  "resp_ok (gmail_messages_get up (detail_request token i)) \<Longrightarrow>
   email_of up token i =
     (let detail = resp_json (gmail_messages_get up (detail_request token i))
      in \<lparr>email_id = i,
          email_subject = sentinel (header_value (detail_headers detail) ''Subject'') ''No Subject'',
          email_from = sentinel (header_value (detail_headers detail) ''From'') ''Unknown'',
          email_date = sentinel (header_value (detail_headers detail) ''Date'') [],
          email_snippet = sentinel (snippet detail) []\<rparr>)"
  by (simp add: email_of_def Let_def sentinel_def or_else_def)

lemma gmail_execute_ok:
  assumes "get_googleAccessToken runtimeContext = Some token" "token \<noteq> []"
    and "resp_ok (gmail_messages_list up (list_request token context))"
  shows "googleGmailTool_execute up context runtimeContext =
     (let listed = slice0 (case resp_json (gmail_messages_list up (list_request token context)) of
                             None \<Rightarrow> [] | Some ms \<Rightarrow> ms) (maxResults_of context)
      in (Inr (map (email_of up token) listed),
          list_request token context # map (detail_request token) listed))"
  using assms by (simp add: googleGmailTool_execute_def Let_def)

lemma contacts_execute_ok:
  assumes "get_googleAccessToken runtimeContext = Some token" "token \<noteq> []"
    and "resp_ok (people_connections up (connections_request token context))"
  shows "googleContactsTool_execute up context runtimeContext =
     (Inr (map contact_of
             (case resp_json (people_connections up (connections_request token context)) of
                None \<Rightarrow> [] | Some ps \<Rightarrow> ps)),
      [connections_request token context])"
  using assms by (simp add: googleContactsTool_execute_def Let_def)

text \<open>
  C7, as the tool has it. When the list request succeeds, the Gmail tool returns a
  result, never an error: one entry for each of the first \<^verbatim>\<open>maxResults\<close> listed
  messages, in the order of the list (every listed message when the list has at most
  \<^verbatim>\<open>maxResults\<close> entries), and the entry of a message whose detail request is not
  ok is the placeholder with the id of the message.
\<close>

theorem C7_failed_details_degrade:
  assumes "get_googleAccessToken runtimeContext = Some token" and "token \<noteq> []"
    and "resp_ok (gmail_messages_list up (list_request token context))"
  shows "let messages = (case resp_json (gmail_messages_list up (list_request token context)) of
                           None \<Rightarrow> [] | Some ms \<Rightarrow> ms);
             listed = slice0 messages (maxResults_of context)
         in case fst (googleGmailTool_execute up context runtimeContext) of
              Inl e \<Rightarrow> False
            | Inr emails \<Rightarrow>
                map email_id emails = listed
                \<and> (int (length messages) \<le> maxResults_of context \<longrightarrow>
                     map email_id emails = messages)
                \<and> (\<forall>i < length listed.
                      \<not> resp_ok (gmail_messages_get up (detail_request token (listed ! i))) \<longrightarrow>
                      emails ! i = placeholder (listed ! i))"
  by (simp add: gmail_execute_ok [OF assms] Let_def comp_def email_of_id slice0_all
        email_of_failed)

theorem C7_failed_details_degrade_witness:
  "get_googleAccessToken token_context = Some ''ya29.token'' \<and> ''ya29.token'' \<noteq> [] \<and>
   resp_ok (gmail_messages_list sample_upstream (list_request ''ya29.token'' default_input)) \<and>
   (case fst (googleGmailTool_execute sample_upstream default_input token_context) of
      Inl e \<Rightarrow> False
    | Inr emails \<Rightarrow>
        map email_id emails = [''m1'', ''m2'', ''m3''] \<and>
        emails ! 1 = placeholder ''m2'' \<and> emails ! 2 = placeholder ''m3'')"
proof -
  have t: "get_googleAccessToken token_context = Some ''ya29.token''"
    by (simp add: token_context_def get_googleAccessToken_def)
  have n: "''ya29.token'' \<noteq> []" by simp
  have l: "resp_ok (gmail_messages_list sample_upstream (list_request ''ya29.token'' default_input))"
    by (simp add: sample_upstream_def)
  have j: "resp_json (gmail_messages_list sample_upstream (list_request ''ya29.token'' default_input))
           = Some [''m1'', ''m2'', ''m3'']"
    by (simp add: sample_upstream_def)
  have m: "maxResults_of default_input = 10"
    by (simp add: maxResults_of_def default_input_def)
  have f2: "\<not> resp_ok (gmail_messages_get sample_upstream (detail_request ''ya29.token'' ''m2''))"
    by (simp add: sample_upstream_def detail_request_def)
  have f3: "\<not> resp_ok (gmail_messages_get sample_upstream (detail_request ''ya29.token'' ''m3''))"
    by (simp add: sample_upstream_def detail_request_def)
  have s: "slice0 [''m1'', ''m2'', ''m3''] 10 = [''m1'', ''m2'', ''m3'']"
    by (simp add: slice0_def)
  from C7_failed_details_degrade [OF t n l]
  have "case fst (googleGmailTool_execute sample_upstream default_input token_context) of
      Inl e \<Rightarrow> False
    | Inr emails \<Rightarrow>
        map email_id emails = [''m1'', ''m2'', ''m3''] \<and>
        emails ! 1 = placeholder ''m2'' \<and> emails ! 2 = placeholder ''m3''"
    using f2 f3 by (auto simp: j m s Let_def split: sum.splits)
  with t n l show ?thesis by blast
qed

text \<open>
  C7 as stated asks for one entry per listed message. With three messages listed,
  the detail of the second failing and \<^verbatim>\<open>maxResults\<close> 2, the output has two entries.
\<close>

theorem C7_truncated_list_counterexample:
  "resp_json (gmail_messages_list sample_upstream (list_request ''ya29.token'' first_two_input))
     = Some [''m1'', ''m2'', ''m3'']
   \<and> \<not> resp_ok (gmail_messages_get sample_upstream (detail_request ''ya29.token'' ''m2''))
   \<and> fst (googleGmailTool_execute sample_upstream first_two_input token_context)
     = Inr [\<lparr>email_id = ''m1'', email_subject = ''No Subject'', email_from = ''ada@example.com'',
             email_date = ''Mon'', email_snippet = ''See you''\<rparr>,
            \<lparr>email_id = ''m2'', email_subject = ''Error fetching email'',
             email_from = ''Unknown'', email_date = [], email_snippet = []\<rparr>]"
  by (simp add: googleGmailTool_execute_def get_googleAccessToken_def token_context_def
        sample_upstream_def first_two_input_def maxResults_of_def list_request_def slice0_def
        email_of_def detail_request_def detail_headers_def readable_message_def
        header_value_def or_else_def Let_def)

lemma contact_of_name: "contact_name (contact_of p) = sentinel (first_value (names p)) ''Unknown''"
  by (simp add: contact_of_def sentinel_def or_else_def)

lemma contact_of_name_nonempty: "contact_name (contact_of p) \<noteq> []"
  by (simp add: contact_of_def or_else_nonempty)

lemma sentinel_nonempty: "d \<noteq> [] \<Longrightarrow> sentinel v d \<noteq> []"
  by (simp add: sentinel_def split: option.splits)

text \<open>
  C4, as the tools have it. With a credential and an ok response, the contacts tool
  returns as many contacts as the upstream has connections: the name is the first
  display name or \<^verbatim>\<open>Unknown\<close>, never empty, and the email and the phone are the first
  upstream values, absent exactly when the upstream has none. The Gmail tool returns one
  email for each of the first \<^verbatim>\<open>maxResults\<close> listed messages, as many as the upstream
  lists when those are at most \<^verbatim>\<open>maxResults\<close>; subject and sender are never empty, and
  for a message whose detail is ok a missing subject is \<^verbatim>\<open>No Subject\<close>, a missing sender
  \<^verbatim>\<open>Unknown\<close>, a missing date or snippet the empty string.
\<close>

theorem C4_output_shape:
  assumes "get_googleAccessToken runtimeContext = Some token" and "token \<noteq> []"
  shows "(resp_ok (people_connections up (connections_request token context)) \<longrightarrow>
           (let people = (case resp_json (people_connections up (connections_request token context)) of
                            None \<Rightarrow> [] | Some ps \<Rightarrow> ps)
            in case fst (googleContactsTool_execute up context runtimeContext) of
                 Inl e \<Rightarrow> False
               | Inr contacts \<Rightarrow>
                   length contacts = length people
                   \<and> map contact_name contacts
                       = map (\<lambda>p. sentinel (first_value (names p)) ''Unknown'') people
                   \<and> map contact_email contacts = map (\<lambda>p. first_value (emailAddresses p)) people
                   \<and> map contact_phone contacts = map (\<lambda>p. first_value (phoneNumbers p)) people
                   \<and> list_all (\<lambda>c. contact_name c \<noteq> []) contacts))
         \<and> (resp_ok (gmail_messages_list up (list_request token context)) \<longrightarrow>
           (let messages = (case resp_json (gmail_messages_list up (list_request token context)) of
                              None \<Rightarrow> [] | Some ms \<Rightarrow> ms);
                listed = slice0 messages (maxResults_of context)
            in case fst (googleGmailTool_execute up context runtimeContext) of
                 Inl e \<Rightarrow> False
               | Inr emails \<Rightarrow>
                   length emails = length listed
                   \<and> (int (length messages) \<le> maxResults_of context \<longrightarrow>
                        length emails = length messages)
                   \<and> list_all (\<lambda>e. email_subject e \<noteq> [] \<and> email_from e \<noteq> []) emails
                   \<and> (\<forall>i < length listed.
                         let d = gmail_messages_get up (detail_request token (listed ! i));
                             hs = detail_headers (resp_json d)
                         in resp_ok d \<longrightarrow>
                            email_id (emails ! i) = listed ! i
                            \<and> email_subject (emails ! i)
                                = sentinel (header_value hs ''Subject'') ''No Subject''
                            \<and> email_from (emails ! i)
                                = sentinel (header_value hs ''From'') ''Unknown''
                            \<and> email_date (emails ! i) = sentinel (header_value hs ''Date'') []
                            \<and> email_snippet (emails ! i) = sentinel (snippet (resp_json d)) [])))"
proof (intro conjI impI)
  assume ok: "resp_ok (people_connections up (connections_request token context))"
  show "let people = (case resp_json (people_connections up (connections_request token context)) of
                            None \<Rightarrow> [] | Some ps \<Rightarrow> ps)
            in case fst (googleContactsTool_execute up context runtimeContext) of
                 Inl e \<Rightarrow> False
               | Inr contacts \<Rightarrow>
                   length contacts = length people
                   \<and> map contact_name contacts
                       = map (\<lambda>p. sentinel (first_value (names p)) ''Unknown'') people
                   \<and> map contact_email contacts = map (\<lambda>p. first_value (emailAddresses p)) people
                   \<and> map contact_phone contacts = map (\<lambda>p. first_value (phoneNumbers p)) people
                   \<and> list_all (\<lambda>c. contact_name c \<noteq> []) contacts"
    by (simp add: contacts_execute_ok [OF assms ok] Let_def comp_def contact_of_name
          sentinel_nonempty list_all_iff)
      (simp add: contact_of_def)
next
  assume ok: "resp_ok (gmail_messages_list up (list_request token context))"
  show "let messages = (case resp_json (gmail_messages_list up (list_request token context)) of
                              None \<Rightarrow> [] | Some ms \<Rightarrow> ms);
                listed = slice0 messages (maxResults_of context)
            in case fst (googleGmailTool_execute up context runtimeContext) of
                 Inl e \<Rightarrow> False
               | Inr emails \<Rightarrow>
                   length emails = length listed
                   \<and> (int (length messages) \<le> maxResults_of context \<longrightarrow>
                        length emails = length messages)
                   \<and> list_all (\<lambda>e. email_subject e \<noteq> [] \<and> email_from e \<noteq> []) emails
                   \<and> (\<forall>i < length listed.
                         let d = gmail_messages_get up (detail_request token (listed ! i));
                             hs = detail_headers (resp_json d)
                         in resp_ok d \<longrightarrow>
                            email_id (emails ! i) = listed ! i
                            \<and> email_subject (emails ! i)
                                = sentinel (header_value hs ''Subject'') ''No Subject''
                            \<and> email_from (emails ! i)
                                = sentinel (header_value hs ''From'') ''Unknown''
                            \<and> email_date (emails ! i) = sentinel (header_value hs ''Date'') []
                            \<and> email_snippet (emails ! i) = sentinel (snippet (resp_json d)) [])"
    by (simp add: gmail_execute_ok [OF assms ok] Let_def slice0_all email_of_nonempty
          list_all_iff email_of_ok)
qed

theorem C4_output_shape_witness:
  "get_googleAccessToken token_context = Some ''ya29.token'' \<and> ''ya29.token'' \<noteq> [] \<and>
   resp_ok (people_connections sample_upstream (connections_request ''ya29.token'' default_input)) \<and>
   resp_ok (gmail_messages_list sample_upstream (list_request ''ya29.token'' default_input)) \<and>
   (case fst (googleContactsTool_execute sample_upstream default_input token_context) of
      Inl e \<Rightarrow> False
    | Inr contacts \<Rightarrow>
        map contact_name contacts = [''Ada'', ''Unknown''] \<and>
        map contact_email contacts = [Some ''ada@example.com'', None] \<and>
        map contact_phone contacts = [None, Some ''555'']) \<and>
   (case fst (googleGmailTool_execute sample_upstream default_input token_context) of
      Inl e \<Rightarrow> False
    | Inr emails \<Rightarrow>
        length emails = 3 \<and> email_subject (emails ! 0) = ''No Subject'' \<and>
        email_from (emails ! 0) = ''ada@example.com'')"
proof -
  have t: "get_googleAccessToken token_context = Some ''ya29.token''"
    by (simp add: token_context_def get_googleAccessToken_def)
  have n: "''ya29.token'' \<noteq> []" by simp
  have p: "resp_ok (people_connections sample_upstream
             (connections_request ''ya29.token'' default_input))"
    by (simp add: sample_upstream_def)
  have l: "resp_ok (gmail_messages_list sample_upstream (list_request ''ya29.token'' default_input))"
    by (simp add: sample_upstream_def)
  have pj: "resp_json (people_connections sample_upstream
              (connections_request ''ya29.token'' default_input))
            = Some [\<lparr>names = Some [Some ''Ada''], emailAddresses = Some [Some ''ada@example.com''],
                     phoneNumbers = None\<rparr>,
                    \<lparr>names = None, emailAddresses = None, phoneNumbers = Some [Some ''555'']\<rparr>]"
    by (simp add: sample_upstream_def)
  have lj: "resp_json (gmail_messages_list sample_upstream (list_request ''ya29.token'' default_input))
           = Some [''m1'', ''m2'', ''m3'']"
    by (simp add: sample_upstream_def)
  have m: "maxResults_of default_input = 10"
    by (simp add: maxResults_of_def default_input_def)
  have s: "slice0 [''m1'', ''m2'', ''m3''] 10 = [''m1'', ''m2'', ''m3'']"
    by (simp add: slice0_def)
  have d: "gmail_messages_get sample_upstream (detail_request ''ya29.token'' ''m1'')
           = \<lparr>resp_ok = True, resp_status = 200, resp_text = [], resp_json = readable_message\<rparr>"
    by (simp add: sample_upstream_def detail_request_def)
  have h: "header_value (detail_headers readable_message) ''Subject'' = None"
          "header_value (detail_headers readable_message) ''From'' = Some ''ada@example.com''"
    by (simp_all add: detail_headers_def readable_message_def header_value_def)
  note inst = C4_output_shape [OF t n, of sample_upstream default_input]
  have c: "case fst (googleContactsTool_execute sample_upstream default_input token_context) of
      Inl e \<Rightarrow> False
    | Inr contacts \<Rightarrow>
        map contact_name contacts = [''Ada'', ''Unknown''] \<and>
        map contact_email contacts = [Some ''ada@example.com'', None] \<and>
        map contact_phone contacts = [None, Some ''555'']"
    using inst p by (auto simp: pj Let_def first_value_def sentinel_def split: sum.splits)
  have g: "case fst (googleGmailTool_execute sample_upstream default_input token_context) of
      Inl e \<Rightarrow> False
    | Inr emails \<Rightarrow>
        length emails = 3 \<and> email_subject (emails ! 0) = ''No Subject'' \<and>
        email_from (emails ! 0) = ''ada@example.com''"
    using inst l by (auto simp: lj m s d h Let_def sentinel_def split: sum.splits)
  from t n p l c g show ?thesis by blast
qed

text \<open>
  C4 as stated asks for an output as long as the upstream list, for each tool. With
  three messages listed and \<^verbatim>\<open>maxResults\<close> 1, the Gmail tool returns one email.
\<close>

theorem C4_gmail_length_counterexample:
  "resp_ok (gmail_messages_list sample_upstream (list_request ''ya29.token'' first_only_input))
   \<and> resp_json (gmail_messages_list sample_upstream (list_request ''ya29.token'' first_only_input))
     = Some [''m1'', ''m2'', ''m3'']
   \<and> fst (googleGmailTool_execute sample_upstream first_only_input token_context)
     = Inr [\<lparr>email_id = ''m1'', email_subject = ''No Subject'', email_from = ''ada@example.com'',
             email_date = ''Mon'', email_snippet = ''See you''\<rparr>]"
  by (simp add: googleGmailTool_execute_def get_googleAccessToken_def token_context_def
        sample_upstream_def first_only_input_def maxResults_of_def list_request_def slice0_def
        email_of_def detail_request_def detail_headers_def readable_message_def
        header_value_def or_else_def Let_def)

section \<open>History and thread deletion\<close>





lemma query_after_delete:
  "memory_query (deleteMessages (map message_id (memory_query mem threadId None)) mem)
     threadId None = []"
  by (auto simp: memory_query_def deleteMessages_def filter_empty_conv)

lemma threads_deleteMessages: "threads (deleteMessages ids mem) = threads mem"
  by (simp add: deleteMessages_def)

lemma getThreadById_deleteMessages:
  "getThreadById (deleteMessages ids mem) threadId = getThreadById mem threadId"
  by (simp add: getThreadById_def threads_deleteMessages)

text \<open>
  C9. For an authenticated \<^verbatim>\<open>DELETE /chat/threads/:threadId\<close> on a configured memory:
  if the thread does not exist or is not the caller's, the reply is 404 and the memory
  is unchanged; otherwise the reply is \<^verbatim>\<open>{success: true}\<close>, no message of the thread is
  left, and the threads are as before, so the thread is still there and still the
  caller's.
\<close>

theorem C9_delete_thread:
  "(\<not> owned_thread mem threadId (user_id session) \<longrightarrow>
      chat_delete_thread_route (Some mem) (Some session) threadId
        = (ErrorJson 404 ''Thread not found'', Some mem))
   \<and> (owned_thread mem threadId (user_id session) \<longrightarrow>
      (\<exists>mem'. chat_delete_thread_route (Some mem) (Some session) threadId
                = (Json 200 Success_true, Some mem')
             \<and> filter (\<lambda>m. message_threadId m = threadId) (messages mem') = []
             \<and> threads mem' = threads mem
             \<and> owned_thread mem' threadId (user_id session)))"
proof (intro conjI impI)
  assume "\<not> owned_thread mem threadId (user_id session)"
  then show "chat_delete_thread_route (Some mem) (Some session) threadId
        = (ErrorJson 404 ''Thread not found'', Some mem)"
    by (simp add: owned_thread_def chat_delete_thread_route_def requireAuth_def
          chat_delete_thread_def split: option.splits)
next
  assume o: "owned_thread mem threadId (user_id session)"
  then obtain t where t: "getThreadById mem threadId = Some t"
    "thread_resourceId t = user_id session"
    by (auto simp: owned_thread_def split: option.splits)
  define mem' where "mem' =
    (if length (memory_query mem threadId None) > 0
     then deleteMessages (map message_id (memory_query mem threadId None)) mem else mem)"
  have r: "chat_delete_thread_route (Some mem) (Some session) threadId
           = (Json 200 Success_true, Some mem')"
    using t by (simp add: chat_delete_thread_route_def requireAuth_def chat_delete_thread_def
        Let_def mem'_def)
  have q: "memory_query mem' threadId None = []"
    by (simp add: mem'_def query_after_delete)
  then have f: "filter (\<lambda>m. message_threadId m = threadId) (messages mem') = []"
    by (simp add: memory_query_def)
  have th: "threads mem' = threads mem"
    by (simp add: mem'_def threads_deleteMessages)
  then have ow: "owned_thread mem' threadId (user_id session)"
    using o by (simp add: owned_thread_def getThreadById_def)
  from r f th ow
  show "\<exists>mem'. chat_delete_thread_route (Some mem) (Some session) threadId
                = (Json 200 Success_true, Some mem')
             \<and> filter (\<lambda>m. message_threadId m = threadId) (messages mem') = []
             \<and> threads mem' = threads mem
             \<and> owned_thread mem' threadId (user_id session)"
    by blast
qed

theorem C9_delete_thread_witness:
  "owned_thread sample_memory ''thread-u1'' (user_id alice) \<and>
   \<not> owned_thread sample_memory ''t-bob'' (user_id alice) \<and>
   \<not> owned_thread sample_memory ''t-none'' (user_id alice) \<and>
   chat_delete_thread_route (Some sample_memory) (Some alice) ''t-bob''
     = (ErrorJson 404 ''Thread not found'', Some sample_memory) \<and>
   chat_delete_thread_route (Some sample_memory) (Some alice) ''t-none''
     = (ErrorJson 404 ''Thread not found'', Some sample_memory) \<and>
   chat_delete_thread_route (Some sample_memory) (Some alice) ''thread-u1''
     = (Json 200 Success_true,
        Some (sample_memory\<lparr>messages := [message_at ''b1'' ''t-bob'' ''u2'' 5]\<rparr>))"
proof -
  have a: "owned_thread sample_memory ''thread-u1'' (user_id alice)"
    by (simp add: owned_thread_def getThreadById_def sample_memory_def alice_def)
  have b: "\<not> owned_thread sample_memory ''t-bob'' (user_id alice)"
    by (simp add: owned_thread_def getThreadById_def sample_memory_def alice_def)
  have c: "\<not> owned_thread sample_memory ''t-none'' (user_id alice)"
    by (simp add: owned_thread_def getThreadById_def sample_memory_def alice_def)
  have d: "chat_delete_thread_route (Some sample_memory) (Some alice) ''thread-u1''
     = (Json 200 Success_true,
        Some (sample_memory\<lparr>messages := [message_at ''b1'' ''t-bob'' ''u2'' 5]\<rparr>))"
    by (simp add: chat_delete_thread_route_def requireAuth_def chat_delete_thread_def Let_def
        getThreadById_def sample_memory_def alice_def memory_query_def deleteMessages_def
        message_at_def)
  show ?thesis
    using a b c d C9_delete_thread [of sample_memory "''t-bob''" alice]
      C9_delete_thread [of sample_memory "''t-none''" alice]
    by simp
qed

section \<open>The trace routes\<close>

lemma find_map_update:
  "find (\<lambda>t. thread_id t = i) (map (\<lambda>t. t\<lparr>thread_resourceId := r\<rparr>) ts)
     = map_option (\<lambda>t. t\<lparr>thread_resourceId := r\<rparr>) (find (\<lambda>t. thread_id t = i) ts)"
  by (induction ts) simp_all

text \<open>
  C10. \<^verbatim>\<open>GET /traces/conversation/:threadId\<close> answers any two authenticated sessions
  alike, and its answer does not change when every thread is given another owner: the
  title and the trace summaries of a thread are returned to any authenticated caller.
\<close>

theorem C10_conversation_traces_any_session:
  "traces_conversation_route storage memory (Some session1) threadId
     = traces_conversation_route storage memory (Some session2) threadId
   \<and> traces_conversation_route storage
        (Some (mem\<lparr>threads := map (\<lambda>t. t\<lparr>thread_resourceId := owner\<rparr>) (threads mem)\<rparr>))
        (Some session1) threadId
     = traces_conversation_route storage (Some mem) (Some session1) threadId"
proof -
  have "(case getThreadById
               (mem\<lparr>threads := map (\<lambda>t. t\<lparr>thread_resourceId := owner\<rparr>) (threads mem)\<rparr>)
               threadId of None \<Rightarrow> None | Some t \<Rightarrow> thread_title t)
        = (case getThreadById mem threadId of None \<Rightarrow> None | Some t \<Rightarrow> thread_title t)"
    by (simp add: getThreadById_def find_map_update split: option.splits)
  then show ?thesis
    by (simp add: traces_conversation_route_def requireAuth_def traces_get_conversation_def
          Let_def split: option.splits)
qed

text \<open>
  Alice reads the traces and the title of a thread that belongs to another user.
\<close>

lemma cross_user_conversation:
  "traces_conversation_route (Some sample_spans) (Some sample_memory) (Some alice) ''t-bob''
     = (Json 200
          \<lparr>conv_threadId = ''t-bob'', conv_title = ''Private'',
           conv_traces =
             [\<lparr>summary_traceId = ''trace-1'', summary_name = ''run'', summary_startTime = 100,
               summary_endTime = Some 200, summary_input = ''in'', summary_output = ''out'',
               summary_metadata = [(''threadId'', ''t-bob'')]\<rparr>]\<rparr>, ())"
  by (simp add: traces_conversation_route_def requireAuth_def traces_get_conversation_def
        Let_def select_root_spans_def sample_spans_def span_at_def root_row_of_def
        summary_of_def getThreadById_def sample_memory_def or_else_def)












end
